theory Spec2Isabelle
  imports Complex_Main
begin

section \<open>Power-flow orchestration of pandapower (\<open>pandapower/powerflow.py\<close>)\<close>

text \<open>
  The module drives one power-flow solve: it prepares the network, has the internal case
  built, dispatches to a solver backend and commits the result to the network.  Its five
  functions \<open>_powerflow\<close>, \<open>_recycled_powerflow\<close>, \<open>_run_pf_algorithm\<close>, \<open>_ppci_to_net\<close> and
  \<open>_pf_without_branches\<close> are embedded below under the same names without the leading
  underscore (an Isabelle name starts with a letter).

  Everything the module imports (the case builder, the solver backends, result merging
  and extraction, cleanup, the numpy helpers) is code of other modules.  These functions
  are parameters of the model, collected in the record \<open>ext\<close>; each is a total function
  that returns what the Python function returns together with the new contents of the
  objects it may mutate.  A theorem below therefore holds for every behaviour of these
  collaborators that returns normally.
\<close>

subsection \<open>Python values and exceptions\<close>

datatype pyval = PyBool bool | PyInt int | PyFloat real | PyStr string

text \<open>Python's \<open>==\<close> on these values: \<open>bool\<close> is a subtype of \<open>int\<close>, so \<open>True == 1\<close>,
  and numbers compare by value; a string equals only an equal string.\<close>

fun py_num :: "pyval \<Rightarrow> real option" where
  "py_num (PyBool b) = Some (if b then 1 else 0)"
| "py_num (PyInt i) = Some (real_of_int i)"
| "py_num (PyFloat r) = Some r"
| "py_num (PyStr s) = None"

fun py_eq :: "pyval \<Rightarrow> pyval \<Rightarrow> bool" where
  "py_eq (PyStr s) (PyStr t) = (s = t)"
| "py_eq (PyStr s) v = False"
| "py_eq v (PyStr t) = False"
| "py_eq v w = (py_num v = py_num w)"

text \<open>The exceptions the module raises itself (\<open>AlgorithmUnknown\<close>, \<open>LoadflowNotConverged\<close>,
  \<open>ValueError\<close>, each with its message) and the ones Python raises on the module's own
  subscripts: \<open>TypeError\<close> for subscripting or testing membership in \<open>None\<close>, \<open>KeyError\<close> for
  a missing dictionary key, \<open>IndexError\<close> for a numpy column that is not there.\<close>

datatype error =
    AlgorithmUnknown string
  | LoadflowNotConverged string
  | ValueError string
  | TypeError
  | KeyError string
  | IndexError

text \<open>\<open>str.format\<close> renders a string argument as itself and an integer in decimal.\<close>

definition digit_char :: "nat \<Rightarrow> char" where
  "digit_char d = char_of (48 + d)"

function str_nat :: "nat \<Rightarrow> string" where
  "str_nat n = (if n < 10 then [digit_char n] else str_nat (n div 10) @ [digit_char (n mod 10)])"
  by pat_completeness auto
termination
  by (relation "measure (\<lambda>n. n)") auto

declare str_nat.simps [simp del]

definition str_int :: "int \<Rightarrow> string" where
  "str_int i = (if i < 0 then CHR ''-'' # str_nat (nat (- i)) else str_nat (nat i))"

subsection \<open>Data model\<close>

text \<open>\<open>net["_options"]\<close>: the keys this module reads are fields; every other option is
  kept in \<open>other_options\<close>, where the backends can see it.  \<open>recycle\<close> is \<open>None\<close> or a
  dictionary of flags.\<close>

record options =
  algorithm :: string
  ac :: bool
  init_results :: bool
  max_iteration :: int
  mode :: string
  voltage_depend_loads :: bool
  recycle :: "(string \<rightharpoonup> bool) option"
  other_options :: "string \<rightharpoonup> pyval"

text \<open>A two-dimensional numpy array is the list of its rows; \<open>shape[0]\<close> is the number of
  rows.  The cell type \<open>'a\<close> stands for the floating-point numbers, which the module only
  passes on.\<close>

type_synonym 'a array2 = "'a list list"

definition shape0 :: "'a array2 \<Rightarrow> nat" where
  "shape0 A = length A"

text \<open>\<open>A[:, j]\<close>: the column \<open>j\<close> of every row; numpy raises \<open>IndexError\<close> when the array
  has no column \<open>j\<close>.  (The width of an array without rows is not represented: such an
  array yields the empty column.)\<close>

definition column :: "nat \<Rightarrow> 'a array2 \<Rightarrow> error + 'a list" where
  "column j A = (if list_all (\<lambda>row. j < length row) A then Inr (map (\<lambda>row. row ! j) A)
                 else Inl IndexError)"

text \<open>The \<open>internal\<close> dictionary of a case: the arrays of the reduced case of the last
  build, and the solver's own state (admittance matrix and so on) as \<open>scratch\<close>.\<close>

record ('a, 's) internal =
  ibaseMVA :: 'a
  ibus :: "'a array2"
  igen :: "'a array2"
  ibranch :: "'a array2"
  scratch :: 's

text \<open>An internal case (\<open>ppc\<close>, the full case, or \<open>ppci\<close>, the reduced case), also the form
  of a solve result: the keys \<open>success\<close>, \<open>iterations\<close> and \<open>et\<close> are present once a solver
  has written them.\<close>

record ('a, 's) pcase =
  baseMVA :: 'a
  bus :: "'a array2"
  gen :: "'a array2"
  branch :: "'a array2"
  internal :: "('a, 's) internal"
  success :: "pyval option"
  iterations :: "pyval option"
  et :: "pyval option"

text \<open>The network: the entries this module reads or writes, and all element and result
  tables (auxiliary elements included) as \<open>tables\<close>.  \<open>net["_ppc"]\<close> is \<open>None\<close> on a network
  that was never solved.\<close>

record ('a, 's, 't) net =
  options :: options
  converged :: bool
  OPF_converged :: bool
  ppc :: "('a, 's) pcase option"
  pd2ppc_lookups_branch :: "string \<rightharpoonup> nat \<times> nat"
  tables :: 't

type_synonym kwargs = "string \<rightharpoonup> pyval"

subsection \<open>Calls to other modules\<close>

text \<open>Every call the module makes to another module is recorded, in order, in a trace; a
  call that receives the network records the network as it is passed.\<close>

datatype call =
    Call_add_auxiliary_elements
  | Call_verify_results
  | Call_reset_results
  | Call_pd2ppc
  | Call_run_bfswpf
  | Call_run_dc_pf
  | Call_run_newton_raphson_pf
  | Call_runpf_pypower
  | Call_makeYbus
  | Call_get_pf_variables_from_ppci
  | Call_pfsoln
  | Call_copy_results_ppci_to_ppc
  | Call_extract_results
  | Call_clean_up bool
  | Call_calc_pq_elements_and_add_on_ppc
  | Call_calc_trafo_parameter
  | Call_calc_trafo3w_parameter
  | Call_build_gen_ppc
  | Call_nan_to_num
  | Call_ppc2ppci

datatype ('a, 's, 't) event = Ev call | EvNet call "('a, 's, 't) net"

fun call_of :: "('a, 's, 't) event \<Rightarrow> call" where
  "call_of (Ev c) = c"
| "call_of (EvNet c n) = c"

definition calls :: "('a, 's, 't) event list \<Rightarrow> call list" where
  "calls tr = map call_of tr"

definition is_backend :: "call \<Rightarrow> bool" where
  "is_backend c = (c = Call_run_bfswpf \<or> c = Call_run_dc_pf \<or> c = Call_run_newton_raphson_pf
                   \<or> c = Call_runpf_pypower)"

text \<open>The imported functions.  \<open>VM\<close> is the column index constant of
  \<open>pandapower.pypower.idx_bus\<close>.  A function that mutates the network (and the full case
  \<open>ppc\<close> handed to it) returns their new contents.  \<open>get_pf_variables_from_ppci\<close> returns
  the six components of its result that \<open>_pf_without_branches\<close> uses (\<open>baseMVA\<close>, \<open>bus\<close>, \<open>gen\<close>,
  \<open>branch\<close>, \<open>ref\<close>, \<open>ref_gens\<close>); \<open>run_bfswpf\<close> and \<open>runpf_pypower\<close> return component \<open>[0]\<close>
  of their result.  \<open>copy_results_ppci_to_ppc\<close> writes into the full case \<open>ppc\<close> it is handed
  and returns the merged case: it yields the returned case and the new contents of
  \<open>ppc\<close>.  \<open>clean_up\<close> takes its flag \<open>res\<close> first.\<close>

record ('a, 'y, 's, 't) ext =
  VM :: nat
  add_auxiliary_elements :: "('a, 's, 't) net \<Rightarrow> ('a, 's, 't) net"
  verify_results :: "('a, 's, 't) net \<Rightarrow> ('a, 's, 't) net"
  reset_results :: "('a, 's, 't) net \<Rightarrow> ('a, 's, 't) net"
  pd2ppc :: "('a, 's, 't) net \<Rightarrow> (('a, 's) pcase \<times> ('a, 's) pcase) \<times> ('a, 's, 't) net"
  run_bfswpf :: "('a, 's) pcase \<Rightarrow> options \<Rightarrow> kwargs \<Rightarrow> ('a, 's) pcase"
  run_dc_pf :: "('a, 's) pcase \<Rightarrow> ('a, 's) pcase"
  run_newton_raphson_pf :: "('a, 's) pcase \<Rightarrow> options \<Rightarrow> ('a, 's) pcase"
  runpf_pypower :: "('a, 's) pcase \<Rightarrow> options \<Rightarrow> kwargs \<Rightarrow> ('a, 's) pcase"
  makeYbus :: "'a \<Rightarrow> 'a array2 \<Rightarrow> 'a array2 \<Rightarrow> 'y \<times> 'y \<times> 'y"
  get_pf_variables_from_ppci ::
    "('a, 's) pcase \<Rightarrow> 'a \<times> 'a array2 \<times> 'a array2 \<times> 'a array2 \<times> int list \<times> int list"
  pfsoln :: "'a \<Rightarrow> 'a array2 \<Rightarrow> 'a array2 \<Rightarrow> 'a array2 \<Rightarrow> 'y \<Rightarrow> 'y \<Rightarrow> 'y \<Rightarrow> 'a list
             \<Rightarrow> int list \<Rightarrow> int list \<Rightarrow> 'a array2 \<times> 'a array2 \<times> 'a array2"
  copy_results_ppci_to_ppc ::
    "('a, 's) pcase \<Rightarrow> ('a, 's) pcase option \<Rightarrow> string \<Rightarrow> ('a, 's) pcase \<times> ('a, 's) pcase"
  extract_results :: "('a, 's, 't) net \<Rightarrow> ('a, 's) pcase \<Rightarrow> ('a, 's, 't) net"
  clean_up :: "bool \<Rightarrow> ('a, 's, 't) net \<Rightarrow> ('a, 's, 't) net"
  calc_pq_elements_and_add_on_ppc ::
    "('a, 's, 't) net \<Rightarrow> ('a, 's) pcase \<Rightarrow> ('a, 's, 't) net \<times> ('a, 's) pcase"
  calc_trafo_parameter ::
    "('a, 's, 't) net \<Rightarrow> ('a, 's) pcase \<Rightarrow> ('a, 's, 't) net \<times> ('a, 's) pcase"
  calc_trafo3w_parameter ::
    "('a, 's, 't) net \<Rightarrow> ('a, 's) pcase \<Rightarrow> ('a, 's, 't) net \<times> ('a, 's) pcase"
  build_gen_ppc ::
    "('a, 's, 't) net \<Rightarrow> ('a, 's) pcase \<Rightarrow> ('a, 's, 't) net \<times> ('a, 's) pcase"
  nan_to_num :: "'a array2 \<Rightarrow> 'a array2"
  ppc2ppci :: "('a, 's) pcase \<Rightarrow> ('a, 's, 't) net \<Rightarrow> ('a, 's) pcase
               \<Rightarrow> ('a, 's) pcase \<times> ('a, 's, 't) net \<times> ('a, 's) pcase"

subsection \<open>\<open>_pf_without_branches\<close>\<close>

text \<open>The admittance matrices are built, the power-flow variables read, the voltage
  magnitudes taken from column \<open>VM\<close> of the bus array, and \<open>pfsoln\<close> computes the arrays
  that are written back into \<open>ppci\<close>, which is returned with \<open>success = True\<close>,
  \<open>iterations = 1\<close> and \<open>et = 0\<close>.\<close>

definition pf_without_branches ::
  "('a, 'y, 's, 't) ext \<Rightarrow> ('a, 's) pcase \<Rightarrow> options \<Rightarrow> ('a, 's, 't) event list
   \<Rightarrow> (error + ('a, 's) pcase) \<times> ('a, 's, 't) event list" where
  "pf_without_branches X ppci opts tr =
    (let (Ybus, Yf, Yt) = makeYbus X (baseMVA ppci) (bus ppci) (branch ppci);
         tr = tr @ [Ev Call_makeYbus];
         (baseMVA', bus', gen', branch', ref, ref_gens) = get_pf_variables_from_ppci X ppci;
         tr = tr @ [Ev Call_get_pf_variables_from_ppci]
     in case column (VM X) (bus ppci) of
          Inl e \<Rightarrow> (Inl e, tr)
        | Inr V \<Rightarrow>
            let (bus'', gen'', branch'') =
                  pfsoln X baseMVA' bus' gen' branch' Ybus Yf Yt V ref ref_gens;
                tr = tr @ [Ev Call_pfsoln];
                ppci = ppci\<lparr>bus := bus'', gen := gen'', branch := branch''\<rparr>;
                ppci = ppci\<lparr>success := Some (PyBool True)\<rparr>;
                ppci = ppci\<lparr>iterations := Some (PyInt 1)\<rparr>;
                ppci = ppci\<lparr>et := Some (PyInt 0)\<rparr>
            in (Inr ppci, tr))"

subsection \<open>\<open>_run_pf_algorithm\<close>\<close>

definition run_pf_algorithm ::
  "('a, 'y, 's, 't) ext \<Rightarrow> ('a, 's) pcase \<Rightarrow> options \<Rightarrow> kwargs \<Rightarrow> ('a, 's, 't) event list
   \<Rightarrow> (error + ('a, 's) pcase) \<times> ('a, 's, 't) event list" where
  "run_pf_algorithm X ppci opts kwargs tr =
    (if ac opts then
       if shape0 (branch ppci) = 0 then pf_without_branches X ppci opts tr
       else if algorithm opts = ''bfsw'' then
         (Inr (run_bfswpf X ppci opts kwargs), tr @ [Ev Call_run_bfswpf])
       else if algorithm opts \<in> set [''nr'', ''iwamoto_nr''] then
         (Inr (run_newton_raphson_pf X ppci opts), tr @ [Ev Call_run_newton_raphson_pf])
       else if algorithm opts \<in> set [''fdbx'', ''fdxb'', ''gs''] then
         (Inr (runpf_pypower X ppci opts kwargs), tr @ [Ev Call_runpf_pypower])
       else (Inl (AlgorithmUnknown (''Algorithm '' @ algorithm opts @ '' is unknown!'')), tr)
     else (Inr (run_dc_pf X ppci), tr @ [Ev Call_run_dc_pf]))"

subsection \<open>State of a run\<close>

text \<open>The network as the function under way has mutated it so far, and the trace of the
  calls made so far.\<close>

record ('a, 's, 't) world =
  net :: "('a, 's, 't) net"
  trace :: "('a, 's, 't) event list"

definition log_call :: "call \<Rightarrow> ('a, 's, 't) world \<Rightarrow> ('a, 's, 't) world" where
  "log_call c w = w\<lparr>trace := trace w @ [Ev c]\<rparr>"

text \<open>A call \<open>f(net)\<close> that may mutate the network.\<close>

definition call_net ::
  "call \<Rightarrow> (('a, 's, 't) net \<Rightarrow> ('a, 's, 't) net) \<Rightarrow> ('a, 's, 't) world \<Rightarrow> ('a, 's, 't) world" where
  "call_net c f w = \<lparr>net = f (net w), trace = trace w @ [EvNet c (net w)]\<rparr>"

text \<open>A call \<open>f(net, ppc)\<close> in \<open>_recycled_powerflow\<close>, where the local variable \<open>ppc\<close> is
  the very object stored as \<open>net["_ppc"]\<close>: the function mutates both in place, so the new
  contents of \<open>ppc\<close> are also what the network holds afterwards.\<close>

definition call_net_ppc ::
  "call \<Rightarrow> (('a, 's, 't) net \<Rightarrow> ('a, 's) pcase \<Rightarrow> ('a, 's, 't) net \<times> ('a, 's) pcase)
   \<Rightarrow> ('a, 's, 't) world \<times> ('a, 's) pcase \<Rightarrow> ('a, 's, 't) world \<times> ('a, 's) pcase" where
  "call_net_ppc c f wp =
    (let (w, p) = wp; (n', p') = f (net w) p
     in (\<lparr>net = n'\<lparr>ppc := Some p'\<rparr>, trace = trace w @ [EvNet c (net w)]\<rparr>, p'))"

subsection \<open>\<open>_ppci_to_net\<close>\<close>

text \<open>The result is merged into the full case.  The merge is handed \<open>net["_ppc"]\<close>, the
  stored object itself, so what it writes into \<open>ppc\<close> is in the network from then on,
  whatever the outcome (a \<open>net["_ppc"]\<close> that is \<open>None\<close> has nothing to write into).  The
  outcome is decided on the \<open>success\<close> entry of the merged case that the merge returns.
  Without success the network is cleaned up with \<open>res=False\<close>
  and \<open>LoadflowNotConverged\<close> is raised, its message formatted from the options read after
  the cleanup.  With success the merged case is stored, \<open>converged\<close> is set, the results
  are extracted and the network is cleaned up.\<close>

definition not_converged_message :: "string \<Rightarrow> int \<Rightarrow> string" where
  "not_converged_message alg max_it =
     ''Power Flow '' @ alg @ '' did not converge after '' @ str_int max_it @ '' iterations!''"

definition ppci_to_net ::
  "('a, 'y, 's, 't) ext \<Rightarrow> ('a, 's) pcase \<Rightarrow> ('a, 's, 't) world
   \<Rightarrow> (error + unit) \<times> ('a, 's, 't) world" where
  "ppci_to_net X result w =
    (let mode' = mode (options (net w));
         ppc' = ppc (net w);
         (result, stored) = copy_results_ppci_to_ppc X result ppc' mode';
         w = \<lparr>net = (net w)\<lparr>ppc := map_option (\<lambda>_. stored) ppc'\<rparr>,
              trace = trace w @ [Ev Call_copy_results_ppci_to_ppc]\<rparr>
     in case success result of
          None \<Rightarrow> (Inl (KeyError ''success''), w)
        | Some s \<Rightarrow>
            if \<not> py_eq s (PyInt 1) then
              let w = call_net (Call_clean_up False) (clean_up X False) w;
                  algorithm' = algorithm (options (net w));
                  max_iteration' = max_iteration (options (net w))
              in (Inl (LoadflowNotConverged (not_converged_message algorithm' max_iteration')), w)
            else
              let w = w\<lparr>net := (net w)\<lparr>ppc := Some result\<rparr>\<rparr>;
                  w = w\<lparr>net := (net w)\<lparr>converged := True\<rparr>\<rparr>;
                  w = call_net Call_extract_results (\<lambda>n. extract_results X n result) w;
                  w = call_net (Call_clean_up True) (clean_up X True) w
              in (Inr (), w))"

subsection \<open>\<open>_powerflow\<close>\<close>

text \<open>\<open>if not "VERBOSE" in kwargs: kwargs["VERBOSE"] = 0\<close>\<close>

definition with_verbose :: "kwargs \<Rightarrow> kwargs" where
  "with_verbose kwargs =
     (if kwargs ''VERBOSE'' = None then kwargs(''VERBOSE'' \<mapsto> PyInt 0) else kwargs)"

text \<open>\<open>init_results\<close>, \<open>ac\<close> and \<open>algorithm\<close> are read from the options at entry; the
  dispatcher receives \<open>net["_options"]\<close> as it is after the case builder has run.  An
  exception of the dispatcher leaves the function at once.\<close>

definition powerflow ::
  "('a, 'y, 's, 't) ext \<Rightarrow> kwargs \<Rightarrow> ('a, 's, 't) world \<Rightarrow> (error + unit) \<times> ('a, 's, 't) world" where
  "powerflow X kwargs w =
    (let init_results' = init_results (options (net w));
         ac' = ac (options (net w));
         algorithm' = algorithm (options (net w));
         w = w\<lparr>net := (net w)\<lparr>converged := False\<rparr>\<rparr>;
         w = w\<lparr>net := (net w)\<lparr>OPF_converged := False\<rparr>\<rparr>;
         w = call_net Call_add_auxiliary_elements (add_auxiliary_elements X) w;
         w = (if \<not> ac' \<or> init_results' then call_net Call_verify_results (verify_results X) w
              else call_net Call_reset_results (reset_results X) w);
         w = (if algorithm' \<notin> set [''nr'', ''bfsw''] then
                w\<lparr>net := (net w)\<lparr>options := (options (net w))\<lparr>voltage_depend_loads := False\<rparr>\<rparr>\<rparr>
              else w);
         ((ppc', ppci), n') = pd2ppc X (net w);
         w = \<lparr>net = n', trace = trace w @ [EvNet Call_pd2ppc (net w)]\<rparr>;
         w = w\<lparr>net := (net w)\<lparr>ppc := Some ppc'\<rparr>\<rparr>;
         kwargs = with_verbose kwargs;
         (r, tr) = run_pf_algorithm X ppci (options (net w)) kwargs (trace w)
     in case r of
          Inl e \<Rightarrow> (Inl e, w\<lparr>trace := tr\<rparr>)
        | Inr result \<Rightarrow> ppci_to_net X result (w\<lparr>trace := tr\<rparr>))"

subsection \<open>\<open>_recycled_powerflow\<close>\<close>

text \<open>The reduced case put together from the \<open>internal\<close> dictionary of the stored full
  case (the dictionary literal at the head of the function).\<close>

definition cached_ppci :: "('a, 's) pcase \<Rightarrow> ('a, 's) pcase" where
  "cached_ppci cached =
     \<lparr>baseMVA = ibaseMVA (internal cached), bus = ibus (internal cached),
      gen = igen (internal cached), branch = ibranch (internal cached),
      internal = internal cached, success = None, iterations = None, et = None\<rparr>"

text \<open>The three update blocks, each guarded by its flag of \<open>recycle\<close>; a flag counts when
  the key is present and its value true.  They act on the network and on the local
  variable \<open>ppc\<close>.  The transformer block reads the branch lookup once and runs each of
  its two updates only when the lookup has the category.\<close>

definition update_bus_pq ::
  "('a, 'y, 's, 't) ext \<Rightarrow> (string \<rightharpoonup> bool) \<Rightarrow> ('a, 's, 't) world \<times> ('a, 's) pcase
   \<Rightarrow> ('a, 's, 't) world \<times> ('a, 's) pcase" where
  "update_bus_pq X recycle' wp =
     (if recycle' ''bus_pq'' = Some True then
        call_net_ppc Call_calc_pq_elements_and_add_on_ppc (calc_pq_elements_and_add_on_ppc X) wp
      else wp)"

definition update_trafo ::
  "('a, 'y, 's, 't) ext \<Rightarrow> (string \<rightharpoonup> bool) \<Rightarrow> ('a, 's, 't) world \<times> ('a, 's) pcase
   \<Rightarrow> ('a, 's, 't) world \<times> ('a, 's) pcase" where
  "update_trafo X recycle' wp =
     (if recycle' ''trafo'' = Some True then
        let lookup = pd2ppc_lookups_branch (net (fst wp));
            wp = (if lookup ''trafo'' \<noteq> None then
                    call_net_ppc Call_calc_trafo_parameter (calc_trafo_parameter X) wp
                  else wp);
            wp = (if lookup ''trafo3w'' \<noteq> None then
                    call_net_ppc Call_calc_trafo3w_parameter (calc_trafo3w_parameter X) wp
                  else wp)
        in wp
      else wp)"

definition update_gen ::
  "('a, 'y, 's, 't) ext \<Rightarrow> (string \<rightharpoonup> bool) \<Rightarrow> ('a, 's, 't) world \<times> ('a, 's) pcase
   \<Rightarrow> ('a, 's, 't) world \<times> ('a, 's) pcase" where
  "update_gen X recycle' wp =
     (if recycle' ''gen'' = Some True then
        let (w, p) = call_net_ppc Call_build_gen_ppc (build_gen_ppc X) wp;
            p = p\<lparr>gen := nan_to_num X (gen p)\<rparr>;
            w = \<lparr>net = (net w)\<lparr>ppc := Some p\<rparr>, trace = trace w @ [Ev Call_nan_to_num]\<rparr>
        in (w, p)
      else wp)"

text \<open>Subscripting a \<open>net["_ppc"]\<close> that is \<open>None\<close> raises \<open>TypeError\<close>, and so does the
  membership test in a \<open>recycle\<close> option that is \<open>None\<close>.  The local variable \<open>options\<close> is
  the dictionary \<open>net["_options"]\<close> itself, so the backend receives it as the network
  holds it then; \<open>algorithm\<close>, \<open>ac\<close> and \<open>recycle\<close> are read before any call.\<close>

definition recycle_message :: string where
  "recycle_message =
     ''recycle is only available with Newton-Raphson power flow. Choose algorithm='' @ [CHR 39]
       @ ''nr'' @ [CHR 39]"

definition recycled_powerflow ::
  "('a, 'y, 's, 't) ext \<Rightarrow> kwargs \<Rightarrow> ('a, 's, 't) world \<Rightarrow> (error + unit) \<times> ('a, 's, 't) world" where
  "recycled_powerflow X kwargs w =
    (let options' = options (net w);
         algorithm' = algorithm options';
         ac' = ac options'
     in case ppc (net w) of
          None \<Rightarrow> (Inl TypeError, w)
        | Some cached \<Rightarrow>
            let ppci = cached_ppci cached
            in if \<not> ac' then
                 let result = run_dc_pf X ppci;
                     w = log_call Call_run_dc_pf w
                 in ppci_to_net X result w
               else if algorithm' \<notin> set [''nr'', ''iwamoto_nr''] \<and> ac' then
                 (Inl (ValueError recycle_message), w)
               else
                 case recycle options' of
                   None \<Rightarrow> (Inl TypeError, w)
                 | Some recycle' \<Rightarrow>
                     let wp = (w, cached);
                         wp = update_bus_pq X recycle' wp;
                         wp = update_trafo X recycle' wp;
                         wp = update_gen X recycle' wp;
                         (w, p) = wp;
                         (ppci, n', p) = ppc2ppci X p (net w) ppci;
                         w = \<lparr>net = n'\<lparr>ppc := Some p\<rparr>,
                              trace = trace w @ [EvNet Call_ppc2ppci (net w)]\<rparr>;
                         ppci = ppci\<lparr>internal := internal p\<rparr>;
                         w = w\<lparr>net := (net w)\<lparr>ppc := Some p\<rparr>\<rparr>;
                         result = run_newton_raphson_pf X ppci (options (net w));
                         w = log_call Call_run_newton_raphson_pf w
                     in ppci_to_net X result w)"

subsection \<open>Observations on a run\<close>

text \<open>The networks that were passed to the calls of one imported function, in order.\<close>

fun net_calls :: "call \<Rightarrow> ('a, 's, 't) event list \<Rightarrow> ('a, 's, 't) net list" where
  "net_calls c [] = []"
| "net_calls c (Ev d # tr) = net_calls c tr"
| "net_calls c (EvNet d n # tr) = (if d = c then n # net_calls c tr else net_calls c tr)"

text \<open>The network of a full solve once its results have been verified or reset, the
  network that is then handed to the case builder, and the calls made up to there.\<close>

definition results_checked :: "('a, 'y, 's, 't) ext \<Rightarrow> ('a, 's, 't) net \<Rightarrow> ('a, 's, 't) net" where
  "results_checked X n =
     (if \<not> ac (options n) \<or> init_results (options n) then verify_results X else reset_results X)
       (add_auxiliary_elements X (n\<lparr>converged := False, OPF_converged := False\<rparr>))"

definition builder_net :: "('a, 'y, 's, 't) ext \<Rightarrow> ('a, 's, 't) net \<Rightarrow> ('a, 's, 't) net" where
  "builder_net X n =
     (if algorithm (options n) \<in> {''nr'', ''bfsw''} then results_checked X n
      else (results_checked X n)\<lparr>options :=
              (options (results_checked X n))\<lparr>voltage_depend_loads := False\<rparr>\<rparr>)"

definition preparation_trace ::
  "('a, 'y, 's, 't) ext \<Rightarrow> ('a, 's, 't) net \<Rightarrow> ('a, 's, 't) event list" where
  "preparation_trace X n =
     [EvNet Call_add_auxiliary_elements (n\<lparr>converged := False, OPF_converged := False\<rparr>),
      EvNet (if \<not> ac (options n) \<or> init_results (options n) then Call_verify_results
             else Call_reset_results)
            (add_auxiliary_elements X (n\<lparr>converged := False, OPF_converged := False\<rparr>)),
      EvNet Call_pd2ppc (builder_net X n)]"

text \<open>The case that the merge of a commit returns, and the network once the merge has
  written into the stored full case.\<close>

definition merged_case ::
  "('a, 'y, 's, 't) ext \<Rightarrow> ('a, 's) pcase \<Rightarrow> ('a, 's, 't) net \<Rightarrow> ('a, 's) pcase" where
  "merged_case X result n =
     fst (copy_results_ppci_to_ppc X result (ppc n) (mode (options n)))"


text \<open>The calls of the update blocks of a recycled solve, for the flags \<open>fl\<close> and the
  branch lookup \<open>lk\<close> that the transformer block reads.\<close>

definition update_calls :: "(string \<rightharpoonup> bool) \<Rightarrow> (string \<rightharpoonup> nat \<times> nat) \<Rightarrow> call list" where
  "update_calls fl lk =
     (if fl ''bus_pq'' = Some True then [Call_calc_pq_elements_and_add_on_ppc] else [])
     @ (if fl ''trafo'' = Some True \<and> lk ''trafo'' \<noteq> None then [Call_calc_trafo_parameter] else [])
     @ (if fl ''trafo'' = Some True \<and> lk ''trafo3w'' \<noteq> None then [Call_calc_trafo3w_parameter] else [])
     @ (if fl ''gen'' = Some True then [Call_build_gen_ppc, Call_nan_to_num] else [])"

subsection \<open>Cleanup\<close>

text \<open>The tables of a network as far as the cleanup is concerned: rows of element tables,
  auxiliary elements added for the solve, rows of result tables.\<close>

datatype table_entry = Element string | Auxiliary string | Result string

fun is_auxiliary :: "table_entry \<Rightarrow> bool" where
  "is_auxiliary (Auxiliary x) = True"
| "is_auxiliary e = False"

fun is_result :: "table_entry \<Rightarrow> bool" where
  "is_result (Result x) = True"
| "is_result e = False"

text \<open>Modelled from the spec: \<open>_clean_up\<close> of \<open>pandapower.auxiliary\<close>, which the commit calls,
  is not among the sources.  The spec has \<open>cleanup(networkModel, resultsValid)\<close> remove the
  transient auxiliary elements (section 6) and, when the results are not valid, discard
  any partially written results (section 4.3, step 2), so that no result table is
  populated after a solve that did not converge (sections 7 and 8); it is idempotent.
  Nothing else of the network is touched.\<close>

definition spec_clean_up ::
  "bool \<Rightarrow> ('a, 's, table_entry list) net \<Rightarrow> ('a, 's, table_entry list) net" where
  "spec_clean_up res n =
     n\<lparr>tables := filter (\<lambda>e. \<not> is_auxiliary e \<and> (res \<or> \<not> is_result e)) (tables n)\<rparr>"

subsection \<open>A small network and simple collaborators\<close>

text \<open>A case of two buses, one generator and one branch, in the pypower column layout
  as far as the bus array goes; collaborators that do the least their contracts ask for,
  with the cleanup of the spec.  The merge returns the case that it has written.
  The Newton-Raphson stand-in converges when it is given three iterations or more.\<close>

definition demo_bus :: "int array2" where
  "demo_bus = [0, 3, 0, 0, 0, 0, 1, 1] # [1, 1, 5, 2, 0, 0, 1, 1] # []"

definition demo_gen :: "int array2" where
  "demo_gen = [0, 0, 0] # []"

definition demo_branch :: "int array2" where
  "demo_branch = [0, 1, 1, 1] # []"

definition demo_case :: "(int, unit) pcase" where
  "demo_case =
     \<lparr>baseMVA = 1, bus = demo_bus, gen = demo_gen, branch = demo_branch,
      internal = \<lparr>ibaseMVA = 1, ibus = demo_bus, igen = demo_gen, ibranch = demo_branch,
                  scratch = ()\<rparr>,
      success = None, iterations = None, et = None\<rparr>"

definition demo_case_no_branch :: "(int, unit) pcase" where
  "demo_case_no_branch = demo_case\<lparr>branch := []\<rparr>"

definition demo_solved :: "bool \<Rightarrow> (int, unit) pcase \<Rightarrow> (int, unit) pcase" where
  "demo_solved ok p =
     p\<lparr>success := Some (PyBool ok), iterations := Some (PyInt 3), et := Some (PyFloat 0)\<rparr>"

definition demo_ext :: "(int, unit, unit, table_entry list) ext" where
  "demo_ext =
     \<lparr>VM = 7,
      add_auxiliary_elements = (\<lambda>n. n\<lparr>tables := Auxiliary ''ad_bus'' # tables n\<rparr>),
      verify_results = (\<lambda>n. n),
      reset_results = (\<lambda>n. n\<lparr>tables := filter (\<lambda>e. \<not> is_result e) (tables n)\<rparr>),
      pd2ppc = (\<lambda>n. ((demo_case, demo_case), n)),
      run_bfswpf = (\<lambda>p opts kw. demo_solved True p),
      run_dc_pf = (\<lambda>p. demo_solved True p),
      run_newton_raphson_pf = (\<lambda>p opts. demo_solved (3 \<le> max_iteration opts) p),
      runpf_pypower = (\<lambda>p opts kw. demo_solved True p),
      makeYbus = (\<lambda>b bu br. ((), (), ())),
      get_pf_variables_from_ppci = (\<lambda>p. (baseMVA p, bus p, gen p, branch p, [0], [0])),
      pfsoln = (\<lambda>b bu g br Y Yf Yt V r rg. (bu, g, br)),
      copy_results_ppci_to_ppc = (\<lambda>r p m. (r, r)),
      extract_results = (\<lambda>n r. n\<lparr>tables := Result ''res_bus'' # tables n\<rparr>),
      clean_up = spec_clean_up,
      calc_pq_elements_and_add_on_ppc = (\<lambda>n p. (n, p)),
      calc_trafo_parameter = (\<lambda>n p. (n, p)),
      calc_trafo3w_parameter = (\<lambda>n p. (n, p)),
      build_gen_ppc = (\<lambda>n p. (n, p)),
      nan_to_num = (\<lambda>A. A),
      ppc2ppci = (\<lambda>p n ppci. (ppci, n, p))\<rparr>"

definition demo_options :: options where
  "demo_options =
     \<lparr>algorithm = ''nr'', ac = True, init_results = False, max_iteration = 10,
      mode = ''pf'', voltage_depend_loads = True, recycle = None, other_options = Map.empty\<rparr>"

text \<open>A network as a converged full solve leaves it.\<close>

definition demo_net :: "(int, unit, table_entry list) net" where
  "demo_net =
     \<lparr>options = demo_options, converged = True, OPF_converged = False,
      ppc = Some (demo_solved True demo_case),
      pd2ppc_lookups_branch = [''line'' \<mapsto> (0, 1)],
      tables = [Result ''res_bus'', Element ''bus'', Element ''line'']\<rparr>"

definition demo_net_with :: "options \<Rightarrow> (int, unit, table_entry list) net" where
  "demo_net_with opts = demo_net\<lparr>options := opts\<rparr>"

section \<open>Properties\<close>

subsection \<open>Auxiliary facts\<close>

lemmas demo_defs = demo_bus_def demo_gen_def demo_branch_def demo_case_def
  demo_case_no_branch_def demo_solved_def demo_ext_def demo_options_def demo_net_def
  demo_net_with_def spec_clean_up_def


lemma str_int_1: "str_int 1 = ''1''"
  by code_simp

lemma net_calls_append: "net_calls c (tr @ tr') = net_calls c tr @ net_calls c tr'"
  by (induction c tr rule: net_calls.induct) simp_all

lemma calls_append: "calls (tr @ tr') = calls tr @ calls tr'"
  by (simp add: calls_def)

text \<open>What each function adds to the trace.\<close>

lemma pf_without_branches_ok:
  assumes "list_all (\<lambda>row. VM X < length row) (bus ppci)"
  shows "\<exists>r. pf_without_branches X ppci opts tr =
           (Inr r, tr @ [Ev Call_makeYbus, Ev Call_get_pf_variables_from_ppci, Ev Call_pfsoln])
         \<and> success r = Some (PyBool True) \<and> iterations r = Some (PyInt 1) \<and> et r = Some (PyInt 0)"
  using assms by (simp add: pf_without_branches_def column_def Let_def split: prod.splits)

lemma pf_without_branches_trace:
  "\<exists>evs. snd (pf_without_branches X ppci opts tr) = tr @ evs
         \<and> set (calls evs) \<subseteq> {Call_makeYbus, Call_get_pf_variables_from_ppci, Call_pfsoln}
         \<and> net_calls c evs = []"
  by (simp add: pf_without_branches_def Let_def calls_def split: prod.splits sum.splits)

lemma run_pf_algorithm_trace:
  "\<exists>evs. snd (run_pf_algorithm X ppci opts kwargs tr) = tr @ evs
         \<and> set (calls evs) \<subseteq> {Call_makeYbus, Call_get_pf_variables_from_ppci, Call_pfsoln,
               Call_run_bfswpf, Call_run_newton_raphson_pf, Call_runpf_pypower, Call_run_dc_pf}
         \<and> net_calls c evs = []"
proof (cases "ac opts \<and> shape0 (branch ppci) = 0")
  case True
  then have "run_pf_algorithm X ppci opts kwargs tr = pf_without_branches X ppci opts tr"
    by (simp add: run_pf_algorithm_def)
  with pf_without_branches_trace [of X ppci opts tr c] show ?thesis by auto
next
  case False
  then show ?thesis by (auto simp add: run_pf_algorithm_def calls_def)
qed

lemma run_pf_algorithm_unknown:
  assumes "fst (run_pf_algorithm X ppci opts kwargs tr) = Inl (AlgorithmUnknown m)"
  shows "snd (run_pf_algorithm X ppci opts kwargs tr) = tr"
  using assms
  by (auto simp add: run_pf_algorithm_def pf_without_branches_def column_def Let_def
        split: if_splits prod.splits sum.splits)

lemma run_pf_algorithm_unknown_name:
  assumes "fst (run_pf_algorithm X ppci opts kwargs tr) = Inl (AlgorithmUnknown m)"
  shows "algorithm opts \<notin> {''nr'', ''iwamoto_nr'', ''bfsw'', ''fdbx'', ''fdxb'', ''gs''}"
  using assms
  by (auto simp add: run_pf_algorithm_def pf_without_branches_def column_def Let_def
        split: if_splits prod.splits sum.splits)

lemma ppci_to_net_trace:
  "\<exists>evs. trace (snd (ppci_to_net X result w)) = trace w @ evs
         \<and> set (calls evs) \<subseteq> {Call_copy_results_ppci_to_ppc, Call_clean_up False,
               Call_extract_results, Call_clean_up True}
         \<and> (c \<noteq> Call_clean_up False \<longrightarrow> c \<noteq> Call_clean_up True \<longrightarrow> c \<noteq> Call_extract_results
              \<longrightarrow> net_calls c evs = [])"
  by (simp add: ppci_to_net_def Let_def call_net_def calls_def split: option.splits prod.splits)

lemma ppci_to_net_error:
  "fst (ppci_to_net X result w) = Inl e \<Longrightarrow>
     e = KeyError ''success'' \<or> (\<exists>m. e = LoadflowNotConverged m)"
  by (auto simp add: ppci_to_net_def Let_def split: option.splits if_splits prod.splits)

lemma ppci_to_net_success:
  "fst (ppci_to_net X result w) = Inr () \<longleftrightarrow>
     (\<exists>s. success (merged_case X result (net w)) = Some s \<and> py_eq s (PyInt 1))"
  by (simp add: ppci_to_net_def merged_case_def Let_def split: option.splits prod.splits)

lemma ppci_to_net_converged:
  assumes "\<And>b m. converged (clean_up X b m) = converged m"
    and "\<And>m r. converged (extract_results X m r) = converged m"
  shows "converged (net (snd (ppci_to_net X result w))) \<longleftrightarrow>
           converged (net w) \<or> fst (ppci_to_net X result w) = Inr ()"
  using assms
  by (simp add: ppci_to_net_def Let_def call_net_def split: option.splits prod.splits)

text \<open>A full solve, cut at the case builder and at the dispatcher.\<close>

lemma powerflow_unfold:
  "powerflow X kwargs \<lparr>net = n, trace = []\<rparr> =
     (case pd2ppc X (builder_net X n) of
        ((full, reduced), n') \<Rightarrow>
          (case run_pf_algorithm X reduced (options n') (with_verbose kwargs)
                  (preparation_trace X n) of
             (r, tr) \<Rightarrow>
               (case r of
                  Inl e \<Rightarrow> (Inl e, \<lparr>net = n'\<lparr>ppc := Some full\<rparr>, trace = tr\<rparr>)
                | Inr result \<Rightarrow>
                    ppci_to_net X result \<lparr>net = n'\<lparr>ppc := Some full\<rparr>, trace = tr\<rparr>)))"
proof (cases "\<not> ac (options n) \<or> init_results (options n)")
  case True
  show ?thesis
  proof (cases "algorithm (options n) \<in> {''nr'', ''bfsw''}")
    case True
    with \<open>\<not> ac (options n) \<or> init_results (options n)\<close> show ?thesis
      unfolding powerflow_def Let_def call_net_def builder_net_def results_checked_def
        preparation_trace_def with_verbose_def
      by (simp split: prod.splits sum.splits)
  next
    case False
    with \<open>\<not> ac (options n) \<or> init_results (options n)\<close> show ?thesis
      unfolding powerflow_def Let_def call_net_def builder_net_def results_checked_def
        preparation_trace_def with_verbose_def
      by (simp split: prod.splits sum.splits)
  qed
next
  case False
  show ?thesis
  proof (cases "algorithm (options n) \<in> {''nr'', ''bfsw''}")
    case True
    with \<open>\<not> (\<not> ac (options n) \<or> init_results (options n))\<close> show ?thesis
      unfolding powerflow_def Let_def call_net_def builder_net_def results_checked_def
        preparation_trace_def with_verbose_def
      by (simp split: prod.splits sum.splits)
  next
    case False
    with \<open>\<not> (\<not> ac (options n) \<or> init_results (options n))\<close> show ?thesis
      unfolding powerflow_def Let_def call_net_def builder_net_def results_checked_def
        preparation_trace_def with_verbose_def
      by (simp split: prod.splits sum.splits)
  qed
qed

lemma powerflow_stages:
  assumes "pd2ppc X (builder_net X n) = ((full, reduced), n')"
    and "run_pf_algorithm X reduced (options n') (with_verbose kwargs) (preparation_trace X n) = (r, tr)"
  shows "powerflow X kwargs \<lparr>net = n, trace = []\<rparr> =
           (case r of Inl e \<Rightarrow> (Inl e, \<lparr>net = n'\<lparr>ppc := Some full\<rparr>, trace = tr\<rparr>)
                    | Inr result \<Rightarrow> ppci_to_net X result \<lparr>net = n'\<lparr>ppc := Some full\<rparr>, trace = tr\<rparr>)"
  using assms by (simp add: powerflow_unfold)

lemma builder_net_converged:
  assumes "\<And>m. converged (add_auxiliary_elements X m) = converged m"
    and "\<And>m. converged (verify_results X m) = converged m"
    and "\<And>m. converged (reset_results X m) = converged m"
  shows "\<not> converged (builder_net X n)"
  using assms by (simp add: builder_net_def results_checked_def)

lemma powerflow_unknown_world:
  assumes "fst (powerflow X kwargs \<lparr>net = n, trace = []\<rparr>) = Inl (AlgorithmUnknown m)"
  shows "snd (powerflow X kwargs \<lparr>net = n, trace = []\<rparr>) =
           \<lparr>net = (snd (pd2ppc X (builder_net X n)))
                    \<lparr>ppc := Some (fst (fst (pd2ppc X (builder_net X n))))\<rparr>,
            trace = preparation_trace X n\<rparr>
         \<and> algorithm (options (snd (pd2ppc X (builder_net X n))))
             \<notin> {''nr'', ''iwamoto_nr'', ''bfsw'', ''fdbx'', ''fdxb'', ''gs''}"
proof -
  obtain full reduced n' where b: "pd2ppc X (builder_net X n) = ((full, reduced), n')"
    by (metis surj_pair)
  obtain r tr where d:
    "run_pf_algorithm X reduced (options n') (with_verbose kwargs) (preparation_trace X n) = (r, tr)"
    by (metis surj_pair)
  note st = powerflow_stages [OF b d]
  show ?thesis
  proof (cases r)
    case (Inl e)
    with st assms have e: "e = AlgorithmUnknown m" by simp
    with Inl d run_pf_algorithm_unknown [of X reduced "options n'" "with_verbose kwargs"
        "preparation_trace X n" m]
    have "tr = preparation_trace X n" by simp
    moreover from e Inl d run_pf_algorithm_unknown_name [of X reduced "options n'"
        "with_verbose kwargs" "preparation_trace X n" m]
    have "algorithm (options n') \<notin> {''nr'', ''iwamoto_nr'', ''bfsw'', ''fdbx'', ''fdxb'', ''gs''}"
      by simp
    ultimately show ?thesis using Inl st b by simp
  next
    case (Inr result)
    with st assms
    have "fst (ppci_to_net X result \<lparr>net = n'\<lparr>ppc := Some full\<rparr>, trace = tr\<rparr>)
          = Inl (AlgorithmUnknown m)" by simp
    from ppci_to_net_error [OF this] show ?thesis by simp
  qed
qed

text \<open>The small network with an algorithm name that the dispatcher does not know.\<close>

lemma demo_unknown_fails:
  "fst (powerflow demo_ext Map.empty
          \<lparr>net = demo_net_with (demo_options\<lparr>algorithm := ''not-a-real-algorithm''\<rparr>), trace = []\<rparr>)
   = Inl (AlgorithmUnknown ''Algorithm not-a-real-algorithm is unknown!'')"
  by (simp add: powerflow_unfold builder_net_def results_checked_def preparation_trace_def
        run_pf_algorithm_def shape0_def demo_defs)

text \<open>A recycled Newton solve: the calls of the update blocks, then the derivation of the
  reduced case, the backend and the commit.\<close>

lemma call_net_ppc_trace:
  "trace (fst (call_net_ppc c f (w, p))) = trace w @ [EvNet c (net w)]"
  by (simp add: call_net_ppc_def split: prod.splits)

lemma call_net_ppc_lookup:
  "pd2ppc_lookups_branch (net (fst (call_net_ppc c f (w, p)))) = pd2ppc_lookups_branch (fst (f (net w) p))"
  by (simp add: call_net_ppc_def split: prod.splits)

lemma update_bus_pq_calls:
  "calls (trace (fst (update_bus_pq X fl (w, p)))) =
     calls (trace w) @ (if fl ''bus_pq'' = Some True then [Call_calc_pq_elements_and_add_on_ppc] else [])"
  by (simp add: update_bus_pq_def call_net_ppc_trace calls_def)

lemma update_bus_pq_lookup:
  "pd2ppc_lookups_branch (net (fst (update_bus_pq X fl (w, p)))) =
     pd2ppc_lookups_branch
       (if fl ''bus_pq'' = Some True then fst (calc_pq_elements_and_add_on_ppc X (net w) p) else net w)"
  by (simp add: update_bus_pq_def call_net_ppc_lookup)

lemma update_trafo_calls:
  "calls (trace (fst (update_trafo X fl wp))) =
     calls (trace (fst wp))
     @ (if fl ''trafo'' = Some True \<and> pd2ppc_lookups_branch (net (fst wp)) ''trafo'' \<noteq> None
        then [Call_calc_trafo_parameter] else [])
     @ (if fl ''trafo'' = Some True \<and> pd2ppc_lookups_branch (net (fst wp)) ''trafo3w'' \<noteq> None
        then [Call_calc_trafo3w_parameter] else [])"
proof (cases wp)
  case (Pair w p)
  obtain w' p' where c: "call_net_ppc Call_calc_trafo_parameter (calc_trafo_parameter X) (w, p) = (w', p')"
    by (metis surj_pair)
  with call_net_ppc_trace [of Call_calc_trafo_parameter "calc_trafo_parameter X" w p]
  have t: "trace w' = trace w @ [EvNet Call_calc_trafo_parameter (net w)]" by simp
  show ?thesis
    using Pair c t
    by (simp add: update_trafo_def Let_def call_net_ppc_trace calls_def)
qed

lemma update_gen_calls:
  "calls (trace (fst (update_gen X fl wp))) =
     calls (trace (fst wp))
     @ (if fl ''gen'' = Some True then [Call_build_gen_ppc, Call_nan_to_num] else [])"
proof (cases wp)
  case (Pair w p)
  obtain w' p' where c: "call_net_ppc Call_build_gen_ppc (build_gen_ppc X) (w, p) = (w', p')"
    by (metis surj_pair)
  with call_net_ppc_trace [of Call_build_gen_ppc "build_gen_ppc X" w p]
  have t: "trace w' = trace w @ [EvNet Call_build_gen_ppc (net w)]" by simp
  show ?thesis
    using Pair c t by (simp add: update_gen_def Let_def calls_def)
qed

lemma updates_calls:
  "calls (trace (fst (update_gen X fl (update_trafo X fl (update_bus_pq X fl (\<lparr>net = n, trace = []\<rparr>, p)))))) =
     update_calls fl (pd2ppc_lookups_branch
       (if fl ''bus_pq'' = Some True then fst (calc_pq_elements_and_add_on_ppc X n p) else n))"
proof -
  have "calls (trace (fst (update_bus_pq X fl (\<lparr>net = n, trace = []\<rparr>, p)))) =
          (if fl ''bus_pq'' = Some True then [Call_calc_pq_elements_and_add_on_ppc] else [])"
    using update_bus_pq_calls [of X fl "\<lparr>net = n, trace = []\<rparr>" p] by (simp add: calls_def)
  moreover have "pd2ppc_lookups_branch (net (fst (update_bus_pq X fl (\<lparr>net = n, trace = []\<rparr>, p)))) =
      pd2ppc_lookups_branch
       (if fl ''bus_pq'' = Some True then fst (calc_pq_elements_and_add_on_ppc X n p) else n)"
    using update_bus_pq_lookup [of X fl "\<lparr>net = n, trace = []\<rparr>" p] by simp
  ultimately show ?thesis
    by (simp only: update_gen_calls update_trafo_calls update_calls_def append_assoc)
qed

lemma recycled_newton_unfold:
  assumes "ac (options n)" and "algorithm (options n) \<in> {''nr'', ''iwamoto_nr''}"
    and "ppc n = Some cached" and "recycle (options n) = Some fl"
    and "update_gen X fl (update_trafo X fl (update_bus_pq X fl (\<lparr>net = n, trace = []\<rparr>, cached)))
         = (w1, p1)"
    and "ppc2ppci X p1 (net w1) (cached_ppci cached) = (ppci', n', p')"
  shows "recycled_powerflow X kwargs \<lparr>net = n, trace = []\<rparr> =
           ppci_to_net X (run_newton_raphson_pf X (ppci'\<lparr>internal := internal p'\<rparr>) (options n'))
             \<lparr>net = n'\<lparr>ppc := Some p'\<rparr>,
              trace = trace w1 @ [EvNet Call_ppc2ppci (net w1), Ev Call_run_newton_raphson_pf]\<rparr>"
  using assms by (simp add: recycled_powerflow_def Let_def log_call_def)

lemma recycled_newton_calls:
  assumes "ac (options n)" and "algorithm (options n) \<in> {''nr'', ''iwamoto_nr''}"
    and "ppc n = Some cached" and "recycle (options n) = Some fl"
  shows "\<exists>commit. calls (trace (snd (recycled_powerflow X kwargs \<lparr>net = n, trace = []\<rparr>))) =
           update_calls fl (pd2ppc_lookups_branch
             (if fl ''bus_pq'' = Some True then fst (calc_pq_elements_and_add_on_ppc X n cached) else n))
           @ [Call_ppc2ppci, Call_run_newton_raphson_pf] @ commit
         \<and> set commit \<subseteq> {Call_copy_results_ppci_to_ppc, Call_clean_up False,
               Call_extract_results, Call_clean_up True}"
proof -
  obtain w1 p1 where u:
    "update_gen X fl (update_trafo X fl (update_bus_pq X fl (\<lparr>net = n, trace = []\<rparr>, cached))) = (w1, p1)"
    by (metis surj_pair)
  obtain ppci' n' p' where c: "ppc2ppci X p1 (net w1) (cached_ppci cached) = (ppci', n', p')"
    by (metis prod_cases3)
  note out = recycled_newton_unfold [OF assms u c, of kwargs]
  from updates_calls [of X fl n cached] u
  have w1: "calls (trace w1) = update_calls fl (pd2ppc_lookups_branch
             (if fl ''bus_pq'' = Some True then fst (calc_pq_elements_and_add_on_ppc X n cached) else n))"
    by simp
  from ppci_to_net_trace [of X "run_newton_raphson_pf X (ppci'\<lparr>internal := internal p'\<rparr>) (options n')"
      "\<lparr>net = n'\<lparr>ppc := Some p'\<rparr>,
              trace = trace w1 @ [EvNet Call_ppc2ppci (net w1), Ev Call_run_newton_raphson_pf]\<rparr>" Call_pd2ppc]
  obtain evs where e: "trace (snd (recycled_powerflow X kwargs \<lparr>net = n, trace = []\<rparr>)) =
       (trace w1 @ [EvNet Call_ppc2ppci (net w1), Ev Call_run_newton_raphson_pf]) @ evs"
     "set (calls evs) \<subseteq> {Call_copy_results_ppci_to_ppc, Call_clean_up False,
               Call_extract_results, Call_clean_up True}"
    unfolding out by auto
  have "calls (trace (snd (recycled_powerflow X kwargs \<lparr>net = n, trace = []\<rparr>))) =
          calls (trace w1) @ [Call_ppc2ppci, Call_run_newton_raphson_pf] @ calls evs"
    unfolding e(1) by (simp add: calls_def)
  with w1 e(2) show ?thesis by auto
qed

lemma recycled_newton_error:
  assumes "ac (options n)" and "algorithm (options n) \<in> {''nr'', ''iwamoto_nr''}"
    and "ppc n = Some cached" and "recycle (options n) = Some fl"
    and "fst (recycled_powerflow X kwargs \<lparr>net = n, trace = []\<rparr>) = Inl e"
  shows "e = KeyError ''success'' \<or> (\<exists>m. e = LoadflowNotConverged m)"
proof -
  obtain w1 p1 where u:
    "update_gen X fl (update_trafo X fl (update_bus_pq X fl (\<lparr>net = n, trace = []\<rparr>, cached))) = (w1, p1)"
    by (metis surj_pair)
  obtain ppci' n' p' where c: "ppc2ppci X p1 (net w1) (cached_ppci cached) = (ppci', n', p')"
    by (metis prod_cases3)
  from assms(5) show ?thesis
    unfolding recycled_newton_unfold [OF assms(1-4) u c, of kwargs] by (rule ppci_to_net_error)
qed

subsection \<open>The converged flag (C1)\<close>

text \<open>The full solve does keep the flag in step: it clears the flag at entry, and the commit
  sets it exactly when it succeeds (for collaborators that leave the flag alone).  The
  commit itself never clears the flag (\<open>ppci_to_net_converged\<close>), and the recycled entry
  point does not clear it either.\<close>

lemma powerflow_converged_iff:
  assumes cl: "\<And>b m. converged (clean_up X b m) = converged m"
    and ex: "\<And>m r. converged (extract_results X m r) = converged m"
    and au: "\<And>m. converged (add_auxiliary_elements X m) = converged m"
    and ve: "\<And>m. converged (verify_results X m) = converged m"
    and re: "\<And>m. converged (reset_results X m) = converged m"
    and bu: "\<And>m. converged (snd (pd2ppc X m)) = converged m"
  shows "converged (net (snd (powerflow X kwargs \<lparr>net = n, trace = []\<rparr>))) \<longleftrightarrow>
           fst (powerflow X kwargs \<lparr>net = n, trace = []\<rparr>) = Inr ()"
proof -
  obtain full reduced n' where b: "pd2ppc X (builder_net X n) = ((full, reduced), n')"
    by (metis surj_pair)
  obtain r tr where d:
    "run_pf_algorithm X reduced (options n') (with_verbose kwargs) (preparation_trace X n) = (r, tr)"
    by (metis surj_pair)
  note st = powerflow_stages [OF b d]
  from bu [of "builder_net X n"] b builder_net_converged [OF au ve re, of n]
  have n': "\<not> converged n'" by simp
  show ?thesis
  proof (cases r)
    case (Inl e)
    with st n' show ?thesis by simp
  next
    case (Inr result)
    with st n' ppci_to_net_converged [OF cl ex, of result "\<lparr>net = n'\<lparr>ppc := Some full\<rparr>, trace = tr\<rparr>"]
    show ?thesis by simp
  qed
qed

text \<open>C1 (the flag follows the last solve attempt, on both entry points) at a recycled solve
  that does not converge: the network comes from a converged solve, the recycled
  Newton-Raphson solve is given one iteration and fails, \<open>LoadflowNotConverged\<close> is
  raised, and \<open>net["converged"]\<close> still holds the \<open>True\<close> of the earlier solve.\<close>

theorem recycled_failure_leaves_converged_stale:
  "converged (demo_net_with (demo_options\<lparr>max_iteration := 1, recycle := Some [''gen'' \<mapsto> True]\<rparr>))
   \<and> fst (recycled_powerflow demo_ext Map.empty
        \<lparr>net = demo_net_with (demo_options\<lparr>max_iteration := 1, recycle := Some [''gen'' \<mapsto> True]\<rparr>),
         trace = []\<rparr>)
     = Inl (LoadflowNotConverged ''Power Flow nr did not converge after 1 iterations!'')
   \<and> calls (trace (snd (recycled_powerflow demo_ext Map.empty
        \<lparr>net = demo_net_with (demo_options\<lparr>max_iteration := 1, recycle := Some [''gen'' \<mapsto> True]\<rparr>),
         trace = []\<rparr>)))
     = [Call_build_gen_ppc, Call_nan_to_num, Call_ppc2ppci, Call_run_newton_raphson_pf,
        Call_copy_results_ppci_to_ppc, Call_clean_up False]
   \<and> converged (net (snd (recycled_powerflow demo_ext Map.empty
        \<lparr>net = demo_net_with (demo_options\<lparr>max_iteration := 1, recycle := Some [''gen'' \<mapsto> True]\<rparr>),
         trace = []\<rparr>)))"
  by (simp add: recycled_powerflow_def ppci_to_net_def cached_ppci_def update_bus_pq_def
        update_trafo_def update_gen_def call_net_ppc_def log_call_def call_net_def
        not_converged_message_def str_int_1 calls_def Let_def demo_defs)

subsection \<open>Commit of a result that did not converge (C2)\<close>



subsection \<open>The branch-less path (C3)\<close>

text \<open>C3: for a reduced case without branch rows (whose bus array has the column \<open>VM\<close> in
  every row) and \<open>ac\<close> true, the dispatcher goes through \<open>makeYbus\<close>,
  \<open>_get_pf_variables_from_ppci\<close> and \<open>pfsoln\<close>, calls no backend, and returns a result with
  \<open>success = True\<close>, \<open>iterations = 1\<close> and \<open>et = 0\<close>, whatever the buses, the generators and
  the algorithm name are.\<close>

theorem branchless_direct_path:
  assumes "ac opts" and "shape0 (branch ppci) = 0"
    and "list_all (\<lambda>row. VM X < length row) (bus ppci)"
  shows "\<exists>r. run_pf_algorithm X ppci opts kwargs tr =
           (Inr r, tr @ [Ev Call_makeYbus, Ev Call_get_pf_variables_from_ppci, Ev Call_pfsoln])
         \<and> success r = Some (PyBool True) \<and> iterations r = Some (PyInt 1) \<and> et r = Some (PyInt 0)"
proof -
  have "run_pf_algorithm X ppci opts kwargs tr = pf_without_branches X ppci opts tr"
    using assms(1,2) by (simp add: run_pf_algorithm_def)
  with pf_without_branches_ok [OF assms(3)] show ?thesis by simp
qed

theorem branchless_direct_path_witness:
  "ac (demo_options\<lparr>algorithm := ''not-a-real-algorithm''\<rparr>)
   \<and> shape0 (branch demo_case_no_branch) = 0
   \<and> list_all (\<lambda>row. VM demo_ext < length row) (bus demo_case_no_branch)
   \<and> (\<exists>r. run_pf_algorithm demo_ext demo_case_no_branch
              (demo_options\<lparr>algorithm := ''not-a-real-algorithm''\<rparr>) Map.empty []
            = (Inr r, [Ev Call_makeYbus, Ev Call_get_pf_variables_from_ppci, Ev Call_pfsoln])
          \<and> success r = Some (PyBool True) \<and> iterations r = Some (PyInt 1)
          \<and> et r = Some (PyInt 0))"
proof -
  have h1: "ac (demo_options\<lparr>algorithm := ''not-a-real-algorithm''\<rparr>)"
    by (simp add: demo_defs)
  have h2: "shape0 (branch demo_case_no_branch) = 0"
    by (simp add: demo_defs shape0_def)
  have h3: "list_all (\<lambda>row. VM demo_ext < length row) (bus demo_case_no_branch)"
    by (simp add: demo_defs)
  from branchless_direct_path [OF h1 h2 h3, of Map.empty "[]"] h1 h2 h3
  show ?thesis by simp
qed

subsection \<open>Unknown algorithm (C4)\<close>

text \<open>C4: with \<open>ac\<close> true, at least one branch row and an algorithm name outside
  \<open>nr\<close>, \<open>iwamoto_nr\<close>, \<open>bfsw\<close>, \<open>fdbx\<close>, \<open>fdxb\<close>, \<open>gs\<close>, the dispatcher raises
  \<open>AlgorithmUnknown\<close> and the trace is as before: no backend was called.\<close>

theorem unknown_algorithm_rejected:
  assumes "ac opts"
    and "algorithm opts \<notin> {''nr'', ''iwamoto_nr'', ''bfsw'', ''fdbx'', ''fdxb'', ''gs''}"
    and "1 \<le> shape0 (branch ppci)"
  shows "run_pf_algorithm X ppci opts kwargs tr =
           (Inl (AlgorithmUnknown (''Algorithm '' @ algorithm opts @ '' is unknown!'')), tr)"
  using assms by (simp add: run_pf_algorithm_def)

theorem unknown_algorithm_rejected_witness:
  "ac (demo_options\<lparr>algorithm := ''not-a-real-algorithm''\<rparr>)
   \<and> algorithm (demo_options\<lparr>algorithm := ''not-a-real-algorithm''\<rparr>)
       \<notin> {''nr'', ''iwamoto_nr'', ''bfsw'', ''fdbx'', ''fdxb'', ''gs''}
   \<and> 1 \<le> shape0 (branch demo_case)
   \<and> run_pf_algorithm demo_ext demo_case (demo_options\<lparr>algorithm := ''not-a-real-algorithm''\<rparr>)
        Map.empty []
      = (Inl (AlgorithmUnknown ''Algorithm not-a-real-algorithm is unknown!''), [])"
proof -
  have h1: "ac (demo_options\<lparr>algorithm := ''not-a-real-algorithm''\<rparr>)"
    by (simp add: demo_defs)
  have h2: "algorithm (demo_options\<lparr>algorithm := ''not-a-real-algorithm''\<rparr>)
       \<notin> {''nr'', ''iwamoto_nr'', ''bfsw'', ''fdbx'', ''fdxb'', ''gs''}"
    by simp
  have h3: "1 \<le> shape0 (branch demo_case)"
    by (simp add: demo_defs shape0_def)
  from unknown_algorithm_rejected [OF h1 h2 h3, of demo_ext Map.empty "[]"] h1 h2 h3
  show ?thesis by simp
qed

subsection \<open>Recycling with another algorithm (C5)\<close>

text \<open>C5 as stated (the recycled solve fails with \<open>ValueError\<close> for every value of \<open>ac\<close>) does not
  hold: with \<open>ac\<close> false, algorithm \<open>bfsw\<close> and the flag \<open>gen\<close> set, the DC backend runs and
  the solve is committed.\<close>

theorem recycled_dc_skips_validation_counterexample:
  "algorithm (options (demo_net_with
       (demo_options\<lparr>algorithm := ''bfsw'', ac := False, recycle := Some [''gen'' \<mapsto> True]\<rparr>))) = ''bfsw''
   \<and> fst (recycled_powerflow demo_ext Map.empty
        \<lparr>net = demo_net_with
           (demo_options\<lparr>algorithm := ''bfsw'', ac := False, recycle := Some [''gen'' \<mapsto> True]\<rparr>),
         trace = []\<rparr>) = Inr ()
   \<and> calls (trace (snd (recycled_powerflow demo_ext Map.empty
        \<lparr>net = demo_net_with
           (demo_options\<lparr>algorithm := ''bfsw'', ac := False, recycle := Some [''gen'' \<mapsto> True]\<rparr>),
         trace = []\<rparr>)))
     = [Call_run_dc_pf, Call_copy_results_ppci_to_ppc, Call_extract_results, Call_clean_up True]"
  by (simp add: recycled_powerflow_def ppci_to_net_def cached_ppci_def log_call_def call_net_def
        calls_def Let_def demo_defs)

text \<open>C5, amended: with \<open>ac\<close> true, a stored internal case and an algorithm other than \<open>nr\<close>
  and \<open>iwamoto_nr\<close>, the recycled solve raises \<open>ValueError\<close> with the network and the trace
  as they were: nothing was called, whatever the recycle flags are.\<close>

theorem recycle_requires_newton_for_ac:
  assumes "ac (options (net w))" and "algorithm (options (net w)) \<notin> {''nr'', ''iwamoto_nr''}"
    and "ppc (net w) = Some cached"
  shows "recycled_powerflow X kwargs w = (Inl (ValueError recycle_message), w)"
  using assms by (simp add: recycled_powerflow_def Let_def)

theorem recycle_requires_newton_for_ac_witness:
  "ac (options (demo_net_with (demo_options\<lparr>algorithm := ''bfsw'', recycle := Some [''gen'' \<mapsto> True]\<rparr>)))
   \<and> algorithm (options (demo_net_with
         (demo_options\<lparr>algorithm := ''bfsw'', recycle := Some [''gen'' \<mapsto> True]\<rparr>)))
       \<notin> {''nr'', ''iwamoto_nr''}
   \<and> ppc (demo_net_with (demo_options\<lparr>algorithm := ''bfsw'', recycle := Some [''gen'' \<mapsto> True]\<rparr>))
       = Some (demo_solved True demo_case)
   \<and> recycled_powerflow demo_ext Map.empty
        \<lparr>net = demo_net_with (demo_options\<lparr>algorithm := ''bfsw'', recycle := Some [''gen'' \<mapsto> True]\<rparr>),
         trace = []\<rparr>
      = (Inl (ValueError recycle_message),
         \<lparr>net = demo_net_with (demo_options\<lparr>algorithm := ''bfsw'', recycle := Some [''gen'' \<mapsto> True]\<rparr>),
          trace = []\<rparr>)"
  using recycle_requires_newton_for_ac [of
      "\<lparr>net = demo_net_with (demo_options\<lparr>algorithm := ''bfsw'', recycle := Some [''gen'' \<mapsto> True]\<rparr>),
        trace = []\<rparr>" "demo_solved True demo_case" demo_ext Map.empty]
  by (simp add: demo_net_with_def demo_net_def demo_options_def)

subsection \<open>The network after an unknown algorithm (C6)\<close>

text \<open>C6 as stated (the network is as at entry when \<open>AlgorithmUnknown\<close> propagates) does not
  hold: a network with \<open>converged = True\<close> comes back with \<open>converged = False\<close>.\<close>

theorem unknown_algorithm_changes_net_counterexample:
  "fst (powerflow demo_ext Map.empty
          \<lparr>net = demo_net_with (demo_options\<lparr>algorithm := ''not-a-real-algorithm''\<rparr>), trace = []\<rparr>)
     = Inl (AlgorithmUnknown ''Algorithm not-a-real-algorithm is unknown!'')
   \<and> converged (demo_net_with (demo_options\<lparr>algorithm := ''not-a-real-algorithm''\<rparr>))
   \<and> \<not> converged (net (snd (powerflow demo_ext Map.empty
          \<lparr>net = demo_net_with (demo_options\<lparr>algorithm := ''not-a-real-algorithm''\<rparr>), trace = []\<rparr>)))
   \<and> net (snd (powerflow demo_ext Map.empty
          \<lparr>net = demo_net_with (demo_options\<lparr>algorithm := ''not-a-real-algorithm''\<rparr>), trace = []\<rparr>))
     \<noteq> demo_net_with (demo_options\<lparr>algorithm := ''not-a-real-algorithm''\<rparr>)"
  by (simp add: powerflow_unfold builder_net_def results_checked_def preparation_trace_def
        run_pf_algorithm_def shape0_def demo_defs)

text \<open>C6, amended: when a full solve fails with \<open>AlgorithmUnknown\<close>, the network is not put
  back to what it was at entry.  What \<open>_powerflow\<close> writes before it dispatches stays:
  \<open>converged\<close> and \<open>OPF_converged\<close> hold \<open>False\<close>, the option \<open>voltage_depend_loads\<close> holds
  \<open>False\<close>, and \<open>net["_ppc"]\<close> holds the full case that the builder returned; no backend
  has been called.  (For collaborators that leave the two flags and the options alone.)\<close>

theorem unknown_algorithm_keeps_deliberate_writes:
  assumes "fst (powerflow X kwargs \<lparr>net = n, trace = []\<rparr>) = Inl (AlgorithmUnknown m)"
    and au: "\<And>k. converged (add_auxiliary_elements X k) = converged k
               \<and> OPF_converged (add_auxiliary_elements X k) = OPF_converged k
               \<and> options (add_auxiliary_elements X k) = options k"
    and ve: "\<And>k. converged (verify_results X k) = converged k
               \<and> OPF_converged (verify_results X k) = OPF_converged k
               \<and> options (verify_results X k) = options k"
    and re: "\<And>k. converged (reset_results X k) = converged k
               \<and> OPF_converged (reset_results X k) = OPF_converged k
               \<and> options (reset_results X k) = options k"
    and bu: "\<And>k. converged (snd (pd2ppc X k)) = converged k
               \<and> OPF_converged (snd (pd2ppc X k)) = OPF_converged k
               \<and> options (snd (pd2ppc X k)) = options k"
  shows "\<not> converged (net (snd (powerflow X kwargs \<lparr>net = n, trace = []\<rparr>)))
       \<and> \<not> OPF_converged (net (snd (powerflow X kwargs \<lparr>net = n, trace = []\<rparr>)))
       \<and> options (net (snd (powerflow X kwargs \<lparr>net = n, trace = []\<rparr>)))
           = (options n)\<lparr>voltage_depend_loads := False\<rparr>
       \<and> ppc (net (snd (powerflow X kwargs \<lparr>net = n, trace = []\<rparr>)))
           = Some (fst (fst (pd2ppc X (builder_net X n))))
       \<and> list_all (\<lambda>c. \<not> is_backend c)
           (calls (trace (snd (powerflow X kwargs \<lparr>net = n, trace = []\<rparr>))))"
proof -
  note w = powerflow_unknown_world [OF assms(1)]
  have rc: "converged (results_checked X n) = False"
       "OPF_converged (results_checked X n) = False"
       "options (results_checked X n) = options n"
    using au ve re by (simp_all add: results_checked_def)
  have alg: "algorithm (options (builder_net X n)) = algorithm (options n)"
    using rc by (simp add: builder_net_def)
  from w bu [of "builder_net X n"] alg
  have unknown: "algorithm (options n) \<notin> {''nr'', ''bfsw''}" by simp
  with rc have bn: "converged (builder_net X n) = False"
       "OPF_converged (builder_net X n) = False"
       "options (builder_net X n) = (options n)\<lparr>voltage_depend_loads := False\<rparr>"
    by (simp_all add: builder_net_def)
  have tr: "list_all (\<lambda>c. \<not> is_backend c) (calls (preparation_trace X n))"
    by (simp add: preparation_trace_def calls_def is_backend_def)
  from w bn bu [of "builder_net X n"] tr show ?thesis by simp
qed

theorem unknown_algorithm_keeps_deliberate_writes_witness:
  "fst (powerflow demo_ext Map.empty
          \<lparr>net = demo_net_with (demo_options\<lparr>algorithm := ''not-a-real-algorithm''\<rparr>), trace = []\<rparr>)
     = Inl (AlgorithmUnknown ''Algorithm not-a-real-algorithm is unknown!'')
   \<and> converged (demo_net_with (demo_options\<lparr>algorithm := ''not-a-real-algorithm''\<rparr>))
   \<and> voltage_depend_loads (options
         (demo_net_with (demo_options\<lparr>algorithm := ''not-a-real-algorithm''\<rparr>)))
   \<and> \<not> converged (net (snd (powerflow demo_ext Map.empty
          \<lparr>net = demo_net_with (demo_options\<lparr>algorithm := ''not-a-real-algorithm''\<rparr>), trace = []\<rparr>)))
   \<and> \<not> OPF_converged (net (snd (powerflow demo_ext Map.empty
          \<lparr>net = demo_net_with (demo_options\<lparr>algorithm := ''not-a-real-algorithm''\<rparr>), trace = []\<rparr>)))
   \<and> options (net (snd (powerflow demo_ext Map.empty
          \<lparr>net = demo_net_with (demo_options\<lparr>algorithm := ''not-a-real-algorithm''\<rparr>), trace = []\<rparr>)))
       = demo_options\<lparr>algorithm := ''not-a-real-algorithm'', voltage_depend_loads := False\<rparr>
   \<and> ppc (net (snd (powerflow demo_ext Map.empty
          \<lparr>net = demo_net_with (demo_options\<lparr>algorithm := ''not-a-real-algorithm''\<rparr>), trace = []\<rparr>)))
       = Some demo_case
   \<and> list_all (\<lambda>c. \<not> is_backend c) (calls (trace (snd (powerflow demo_ext Map.empty
          \<lparr>net = demo_net_with (demo_options\<lparr>algorithm := ''not-a-real-algorithm''\<rparr>), trace = []\<rparr>))))"
proof -
  have au: "\<And>k. converged (add_auxiliary_elements demo_ext k) = converged k
               \<and> OPF_converged (add_auxiliary_elements demo_ext k) = OPF_converged k
               \<and> options (add_auxiliary_elements demo_ext k) = options k"
    by (simp add: demo_ext_def)
  have ve: "\<And>k. converged (verify_results demo_ext k) = converged k
               \<and> OPF_converged (verify_results demo_ext k) = OPF_converged k
               \<and> options (verify_results demo_ext k) = options k"
    by (simp add: demo_ext_def)
  have re: "\<And>k. converged (reset_results demo_ext k) = converged k
               \<and> OPF_converged (reset_results demo_ext k) = OPF_converged k
               \<and> options (reset_results demo_ext k) = options k"
    by (simp add: demo_ext_def)
  have bu: "\<And>k. converged (snd (pd2ppc demo_ext k)) = converged k
               \<and> OPF_converged (snd (pd2ppc demo_ext k)) = OPF_converged k
               \<and> options (snd (pd2ppc demo_ext k)) = options k"
    by (simp add: demo_ext_def)
  have full: "fst (fst (pd2ppc demo_ext (builder_net demo_ext
                (demo_net_with (demo_options\<lparr>algorithm := ''not-a-real-algorithm''\<rparr>))))) = demo_case"
    by (simp add: demo_ext_def)
  have entry: "converged (demo_net_with (demo_options\<lparr>algorithm := ''not-a-real-algorithm''\<rparr>))"
    "voltage_depend_loads (options
         (demo_net_with (demo_options\<lparr>algorithm := ''not-a-real-algorithm''\<rparr>)))"
    "options (demo_net_with (demo_options\<lparr>algorithm := ''not-a-real-algorithm''\<rparr>))
       = demo_options\<lparr>algorithm := ''not-a-real-algorithm''\<rparr>"
    by (simp_all add: demo_net_with_def demo_net_def demo_options_def)
  from unknown_algorithm_keeps_deliberate_writes [OF demo_unknown_fails au ve re bu]
    demo_unknown_fails full entry
  show ?thesis by simp
qed

subsection \<open>Order of the tests in the dispatcher (C7)\<close>

text \<open>C7 as stated (a case without branches takes the branch-less path also when \<open>ac\<close> is
  false) does not hold: with \<open>ac\<close> false the only call is the DC backend.\<close>

theorem zero_branch_dc_counterexample:
  "shape0 (branch demo_case_no_branch) = 0
   \<and> calls (snd (run_pf_algorithm demo_ext demo_case_no_branch (demo_options\<lparr>ac := False\<rparr>)
                   Map.empty [])) = [Call_run_dc_pf]"
  by (simp add: run_pf_algorithm_def shape0_def calls_def demo_defs)

text \<open>C7, amended: the dispatcher tests \<open>ac\<close> first.  For a case without branch rows it
  takes the branch-less path when \<open>ac\<close> is true, and calls the DC backend when \<open>ac\<close> is
  false.\<close>

theorem zero_branch_dispatch_tests_ac_first:
  assumes "shape0 (branch ppci) = 0"
  shows "(ac opts \<longrightarrow> run_pf_algorithm X ppci opts kwargs tr = pf_without_branches X ppci opts tr)
       \<and> (\<not> ac opts \<longrightarrow> run_pf_algorithm X ppci opts kwargs tr
                           = (Inr (run_dc_pf X ppci), tr @ [Ev Call_run_dc_pf]))"
  using assms by (simp add: run_pf_algorithm_def)

theorem zero_branch_dispatch_tests_ac_first_witness:
  "shape0 (branch demo_case_no_branch) = 0
   \<and> run_pf_algorithm demo_ext demo_case_no_branch (demo_options\<lparr>ac := False\<rparr>) Map.empty []
       = (Inr (demo_solved True demo_case_no_branch), [Ev Call_run_dc_pf])
   \<and> run_pf_algorithm demo_ext demo_case_no_branch demo_options Map.empty []
       = pf_without_branches demo_ext demo_case_no_branch demo_options []"
proof -
  have h: "shape0 (branch demo_case_no_branch) = 0"
    by (simp add: demo_defs shape0_def)
  from zero_branch_dispatch_tests_ac_first [OF h, of "demo_options\<lparr>ac := False\<rparr>" demo_ext Map.empty "[]"]
    zero_branch_dispatch_tests_ac_first [OF h, of demo_options demo_ext Map.empty "[]"] h
  show ?thesis by (simp add: demo_ext_def demo_options_def)
qed

subsection \<open>Recycle flag of an absent category (C8)\<close>

text \<open>C8: in a recycled Newton solve with the flag \<open>trafo\<close> set, a transformer category that
  the branch lookup does not have (\<open>trafo\<close>, \<open>trafo3w\<close>) is not updated, and the solve goes
  on: the Newton-Raphson backend is called, and no \<open>TypeError\<close> or \<open>ValueError\<close> is raised.
  The lookup is the one of the network after the \<open>bus_pq\<close> update, if that ran.\<close>

theorem absent_transformer_category_skipped:
  assumes "ac (options n)" and "algorithm (options n) \<in> {''nr'', ''iwamoto_nr''}"
    and "ppc n = Some cached" and "recycle (options n) = Some flags"
    and "flags ''trafo'' = Some True"
  shows "let n1 = (if flags ''bus_pq'' = Some True
                   then fst (calc_pq_elements_and_add_on_ppc X n cached) else n);
             out = recycled_powerflow X kwargs \<lparr>net = n, trace = []\<rparr>
         in (pd2ppc_lookups_branch n1 ''trafo'' = None
               \<longrightarrow> Call_calc_trafo_parameter \<notin> set (calls (trace (snd out))))
          \<and> (pd2ppc_lookups_branch n1 ''trafo3w'' = None
               \<longrightarrow> Call_calc_trafo3w_parameter \<notin> set (calls (trace (snd out))))
          \<and> Call_run_newton_raphson_pf \<in> set (calls (trace (snd out)))
          \<and> fst out \<noteq> Inl TypeError \<and> (\<forall>m. fst out \<noteq> Inl (ValueError m))"
proof -
  from recycled_newton_calls [OF assms(1-4), of X kwargs] obtain commit where
    c: "calls (trace (snd (recycled_powerflow X kwargs \<lparr>net = n, trace = []\<rparr>))) =
           update_calls flags (pd2ppc_lookups_branch
             (if flags ''bus_pq'' = Some True then fst (calc_pq_elements_and_add_on_ppc X n cached) else n))
           @ [Call_ppc2ppci, Call_run_newton_raphson_pf] @ commit"
    and s: "set commit \<subseteq> {Call_copy_results_ppci_to_ppc, Call_clean_up False,
               Call_extract_results, Call_clean_up True}"
    by blast
  have e1: "fst (recycled_powerflow X kwargs \<lparr>net = n, trace = []\<rparr>) \<noteq> Inl TypeError"
    using recycled_newton_error [OF assms(1-4), of X kwargs TypeError] by auto
  have e2: "\<forall>m. fst (recycled_powerflow X kwargs \<lparr>net = n, trace = []\<rparr>) \<noteq> Inl (ValueError m)"
    using recycled_newton_error [OF assms(1-4), of X kwargs] by auto
  show ?thesis
    unfolding Let_def c using s e1 e2 by (auto simp add: update_calls_def)
qed

theorem absent_transformer_category_skipped_witness:
  "ac (options (demo_net_with (demo_options\<lparr>recycle := Some [''trafo'' \<mapsto> True]\<rparr>)))
   \<and> algorithm (options (demo_net_with (demo_options\<lparr>recycle := Some [''trafo'' \<mapsto> True]\<rparr>)))
       \<in> {''nr'', ''iwamoto_nr''}
   \<and> pd2ppc_lookups_branch (demo_net_with (demo_options\<lparr>recycle := Some [''trafo'' \<mapsto> True]\<rparr>))
        ''trafo'' = None
   \<and> pd2ppc_lookups_branch (demo_net_with (demo_options\<lparr>recycle := Some [''trafo'' \<mapsto> True]\<rparr>))
        ''trafo3w'' = None
   \<and> Call_calc_trafo_parameter \<notin> set (calls (trace (snd (recycled_powerflow demo_ext Map.empty
        \<lparr>net = demo_net_with (demo_options\<lparr>recycle := Some [''trafo'' \<mapsto> True]\<rparr>), trace = []\<rparr>))))
   \<and> Call_calc_trafo3w_parameter \<notin> set (calls (trace (snd (recycled_powerflow demo_ext Map.empty
        \<lparr>net = demo_net_with (demo_options\<lparr>recycle := Some [''trafo'' \<mapsto> True]\<rparr>), trace = []\<rparr>))))
   \<and> Call_run_newton_raphson_pf \<in> set (calls (trace (snd (recycled_powerflow demo_ext Map.empty
        \<lparr>net = demo_net_with (demo_options\<lparr>recycle := Some [''trafo'' \<mapsto> True]\<rparr>), trace = []\<rparr>))))"
proof -
  let ?n = "demo_net_with (demo_options\<lparr>recycle := Some [''trafo'' \<mapsto> True]\<rparr>)"
  have h1: "ac (options ?n)" by (simp add: demo_net_with_def demo_options_def)
  have h2: "algorithm (options ?n) \<in> {''nr'', ''iwamoto_nr''}"
    by (simp add: demo_net_with_def demo_options_def)
  have h3: "ppc ?n = Some (demo_solved True demo_case)"
    by (simp add: demo_net_with_def demo_net_def)
  have h4: "recycle (options ?n) = Some [''trafo'' \<mapsto> True]"
    by (simp add: demo_net_with_def)
  have h5: "[''trafo'' \<mapsto> True] ''trafo'' = Some True" by simp
  have l: "pd2ppc_lookups_branch ?n ''trafo'' = None" "pd2ppc_lookups_branch ?n ''trafo3w'' = None"
    by (simp_all add: demo_net_with_def demo_net_def)
  from absent_transformer_category_skipped [OF h1 h2 h3 h4 h5, of demo_ext Map.empty] h1 h2 l
  show ?thesis by (simp add: Let_def)
qed

subsection \<open>The option voltage_depend_loads (C9)\<close>

text \<open>C9: in a full solve the case builder is called once, on the network whose results have
  been verified or reset; for an algorithm other than \<open>nr\<close> and \<open>bfsw\<close> the option
  \<open>voltage_depend_loads\<close> of that network has been set to \<open>False\<close>, for \<open>nr\<close> and \<open>bfsw\<close>
  the network is passed as it is.\<close>

theorem builder_sees_forced_option:
  "net_calls Call_pd2ppc (trace (snd (powerflow X kwargs \<lparr>net = n, trace = []\<rparr>))) =
     [if algorithm (options n) \<in> {''nr'', ''bfsw''} then results_checked X n
      else (results_checked X n)\<lparr>options :=
              (options (results_checked X n))\<lparr>voltage_depend_loads := False\<rparr>\<rparr>]"
proof -
  obtain full reduced n' where b: "pd2ppc X (builder_net X n) = ((full, reduced), n')"
    by (metis surj_pair)
  obtain r tr where d:
    "run_pf_algorithm X reduced (options n') (with_verbose kwargs) (preparation_trace X n) = (r, tr)"
    by (metis surj_pair)
  from run_pf_algorithm_trace [of X reduced "options n'" "with_verbose kwargs"
      "preparation_trace X n" Call_pd2ppc] d
  have tr: "net_calls Call_pd2ppc tr = net_calls Call_pd2ppc (preparation_trace X n)"
    by (auto simp add: net_calls_append)
  have prep: "net_calls Call_pd2ppc (preparation_trace X n) = [builder_net X n]"
    by (simp add: preparation_trace_def)
  have "net_calls Call_pd2ppc (trace (snd (powerflow X kwargs \<lparr>net = n, trace = []\<rparr>))) =
          [builder_net X n]"
  proof (cases r)
    case (Inl e)
    with powerflow_stages [OF b d] tr prep show ?thesis by simp
  next
    case (Inr result)
    from ppci_to_net_trace [of X result "\<lparr>net = n'\<lparr>ppc := Some full\<rparr>, trace = tr\<rparr>" Call_pd2ppc]
    have "net_calls Call_pd2ppc
            (trace (snd (ppci_to_net X result \<lparr>net = n'\<lparr>ppc := Some full\<rparr>, trace = tr\<rparr>)))
          = net_calls Call_pd2ppc tr"
      by (auto simp add: net_calls_append)
    with Inr powerflow_stages [OF b d] tr prep show ?thesis by simp
  qed
  then show ?thesis by (simp add: builder_net_def)
qed

theorem builder_sees_forced_option_witness:
  "voltage_depend_loads (options (demo_net_with (demo_options\<lparr>algorithm := ''gs''\<rparr>)))
   \<and> map (\<lambda>m. voltage_depend_loads (options m))
        (net_calls Call_pd2ppc (trace (snd (powerflow demo_ext Map.empty
           \<lparr>net = demo_net_with (demo_options\<lparr>algorithm := ''gs''\<rparr>), trace = []\<rparr>)))) = [False]
   \<and> map (\<lambda>m. voltage_depend_loads (options m))
        (net_calls Call_pd2ppc (trace (snd (powerflow demo_ext Map.empty
           \<lparr>net = demo_net_with (demo_options\<lparr>algorithm := ''bfsw''\<rparr>), trace = []\<rparr>)))) = [True]"
  using builder_sees_forced_option [of demo_ext Map.empty "demo_net_with (demo_options\<lparr>algorithm := ''gs''\<rparr>)"]
    builder_sees_forced_option [of demo_ext Map.empty "demo_net_with (demo_options\<lparr>algorithm := ''bfsw''\<rparr>)"]
  by (simp add: results_checked_def demo_defs)

subsection \<open>The DC path (C10)\<close>

text \<open>C10: with \<open>ac\<close> false the dispatcher returns the result of the DC backend, its only
  call, for every algorithm name; it raises nothing.\<close>

theorem dc_dispatch_ignores_algorithm:
  assumes "\<not> ac opts"
  shows "run_pf_algorithm X ppci opts kwargs tr = (Inr (run_dc_pf X ppci), tr @ [Ev Call_run_dc_pf])"
  using assms by (simp add: run_pf_algorithm_def)

theorem dc_dispatch_ignores_algorithm_witness:
  "\<not> ac (demo_options\<lparr>algorithm := ''not-a-real-algorithm'', ac := False\<rparr>)
   \<and> run_pf_algorithm demo_ext demo_case
        (demo_options\<lparr>algorithm := ''not-a-real-algorithm'', ac := False\<rparr>) Map.empty []
      = (Inr (demo_solved True demo_case), [Ev Call_run_dc_pf])"
proof -
  have h: "\<not> ac (demo_options\<lparr>algorithm := ''not-a-real-algorithm'', ac := False\<rparr>)"
    by simp
  from dc_dispatch_ignores_algorithm [OF h, of demo_ext demo_case Map.empty "[]"] h
  show ?thesis by (simp add: demo_ext_def)
qed


end
